theory Spec2Isabelle
  imports Complex_Main
begin

section \<open>The PHOENIX library: grid lookup and interpolation\<close>

text \<open>
  This theory embeds the lookup and interpolation core of \<^verbatim>\<open>PHOENIXLibrary\<close>
  (\<^verbatim>\<open>src/chromatic/spectra/phoenix.py\<close>): \<^verbatim>\<open>_find_smallest_R\<close>,
  \<^verbatim>\<open>_find_bounds\<close>, \<^verbatim>\<open>_get_interpolation_weights\<close> and
  \<^verbatim>\<open>get_spectrum\<close>. A leading underscore is dropped from a name, since an
  Isabelle identifier cannot start with one.

  Numbers. The source computes with IEEE double precision numbers. They are modelled
  by \<^typ>\<open>real\<close>: rounding, infinities and NaN are outside the model, and
  \<^verbatim>\<open>np.log\<close> is \<^const>\<open>ln\<close>, which says nothing useful on a non-positive
  argument (the source gets \<^verbatim>\<open>-inf\<close> or NaN there). Every statement below that
  depends on a logarithm therefore asks for positive temperatures, and every statement
  about a sum of weights is a statement about exact arithmetic.

  Plotting (\<^verbatim>\<open>visualize=True\<close>) and the physical unit attached to the returned
  arrays are left out: the model is \<^verbatim>\<open>get_spectrum\<close> with its default
  \<^verbatim>\<open>visualize=False\<close>, and it returns the bare arrays.
\<close>

subsection \<open>Data\<close>

text \<open>\<^verbatim>\<open>_keys_for_indexing = ["temperature", "logg", "metallicity"]\<close>\<close>

datatype key = Temperature | Logg | Metallicity

type_synonym spectrum = "real list"

text \<open>A key of the dictionary \<^verbatim>\<open>self.models\<close>: \<^verbatim>\<open>(T, logg, Z)\<close>.\<close>

type_synonym model_key = "real \<times> real \<times> real"

text \<open>
  What \<^verbatim>\<open>_load_grid\<close> leaves in the object: \<^verbatim>\<open>self.metadata[k]\<close> for the three
  indexing keys (arrays of axis values), \<^verbatim>\<open>self.wavelength\<close>, and the dictionary
  \<^verbatim>\<open>self.models\<close>.
\<close>

record grid =
  metadata :: "key \<Rightarrow> real list"
  wavelength :: "real list"
  models :: "model_key \<rightharpoonup> spectrum"

text \<open>
  The errors the modelled code can raise. The \<^verbatim>\<open>ValueError\<close> of
  \<^verbatim>\<open>_find_bounds\<close> carries what its message is formatted from, in the order of the
  message: \<^verbatim>\<open>repr(inputs)\<close>, \<^verbatim>\<open>np.min(possible)\<close>, \<^verbatim>\<open>key\<close>,
  \<^verbatim>\<open>np.max(possible)\<close>. \<open>ValueError_zero_size\<close> is what \<^verbatim>\<open>np.min\<close> and
  \<^verbatim>\<open>np.max\<close> raise on an empty array, \<open>ValueError_shape\<close> what numpy raises when
  arrays of different lengths are stacked.
\<close>

datatype error =
    ValueError_outside_limits "(key \<times> real) list" real key real
  | ValueError_zero_size
  | ValueError_shape
  | KeyError model_key
  | IndexError
  | AssertionError
  | TypeError

text \<open>The warning of \<^verbatim>\<open>_find_smallest_R\<close>: the requested and the largest resolution.\<close>

datatype warning = ResolutionWarning real real

subsection \<open>numpy\<close>

text \<open>
  \<^verbatim>\<open>np.min\<close> and \<^verbatim>\<open>np.max\<close> of a one-dimensional array; both raise
  \<^verbatim>\<open>ValueError\<close> on an empty one.
\<close>

definition np_min :: "real list \<Rightarrow> error + real" where
  "np_min xs = (case xs of [] \<Rightarrow> Inl ValueError_zero_size | x # ys \<Rightarrow> Inr (fold min ys x))"

definition np_max :: "real list \<Rightarrow> error + real" where
  "np_max xs = (case xs of [] \<Rightarrow> Inl ValueError_zero_size | x # ys \<Rightarrow> Inr (fold max ys x))"

text \<open>\<^verbatim>\<open>np.flatnonzero\<close> of a boolean array: the indices of its true entries, ascending.\<close>

definition flatnonzero :: "bool list \<Rightarrow> nat list" where
  "flatnonzero bs = filter (\<lambda>i. bs ! i) [0..<length bs]"

text \<open>
  \<^verbatim>\<open>np.isclose(a, b)\<close> with numpy's default tolerances
  \<^verbatim>\<open>rtol=1e-05, atol=1e-08\<close>: \<^verbatim>\<open>absolute(a - b) <= (atol + rtol * absolute(b))\<close>.
\<close>

definition isclose :: "real \<Rightarrow> real \<Rightarrow> bool" where
  "isclose a b = (\<bar>a - b\<bar> \<le> 1 / 10 ^ 8 + 1 / 10 ^ 5 * \<bar>b\<bar>)"

text \<open>
  \<^verbatim>\<open>np.sum(weights[:, np.newaxis] * spectra, axis=0)\<close>: entry \<open>j\<close> of the result is
  the sum over \<open>i\<close> of \<open>weights[i] * spectra[i][j]\<close>. The list \<^verbatim>\<open>spectra\<close> becomes a
  two-dimensional array first, which needs spectra of one length.
\<close>

definition weighted_sum :: "real list \<Rightarrow> spectrum list \<Rightarrow> error + spectrum" where
  "weighted_sum weights spectra =
     (case spectra of
        [] \<Rightarrow> Inr []
      | s0 # _ \<Rightarrow>
          if list_all (\<lambda>s. length s = length s0) spectra
          then Inr (map (\<lambda>j. sum_list (map (\<lambda>(w, s). w * s ! j) (zip weights spectra)))
                        [0..<length s0])
          else Inl ValueError_shape)"

subsection \<open>\<^verbatim>\<open>_find_smallest_R\<close>\<close>

text \<open>The class attribute \<^verbatim>\<open>_available_resolutions\<close>.\<close>

definition available_resolutions :: "real list" where
  "available_resolutions = [3, 10, 30, 100, 300, 1000, 3000, 10000, 30000, 100000]"

text \<open>
  \<^verbatim>\<open>i = np.flatnonzero(np.array(self._available_resolutions) >= R)[0]\<close> raises
  \<^verbatim>\<open>IndexError\<close> when no resolution is large enough. Otherwise \<^verbatim>\<open>i\<close> is an
  index, the test \<^verbatim>\<open>i is not None\<close> holds, and the branch with the warning is
  not taken. The result is the list of warnings emitted and the value returned; the
  list of resolutions is the first argument.
\<close>

definition find_smallest_R :: "real list \<Rightarrow> real \<Rightarrow> error + (warning list \<times> real)" where
  "find_smallest_R resolutions R =
     (case flatnonzero (map (\<lambda>a. a \<ge> R) resolutions) of
        [] \<Rightarrow> Inl IndexError
      | i0 # _ \<Rightarrow>
          (let i = Some i0 in
           case i of
             Some j \<Rightarrow> Inr ([], resolutions ! j)
           | None \<Rightarrow>
               (case np_max resolutions of
                  Inl e \<Rightarrow> Inl e
                | Inr m \<Rightarrow> Inr ([ResolutionWarning R m], m))))"

subsection \<open>\<^verbatim>\<open>_find_bounds\<close>\<close>

text \<open>
  \<^verbatim>\<open>possible[possible > value]\<close> and \<^verbatim>\<open>possible[possible <= value]\<close> are
  filters; the \<^verbatim>\<open>ValueError\<close> of \<^verbatim>\<open>np.min\<close> and \<^verbatim>\<open>np.max\<close> on an empty
  selection is caught and turned into \<^verbatim>\<open>None\<close>. The result is the list
  \<^verbatim>\<open>[value]\<close> or the pair \<^verbatim>\<open>below, above\<close>, both modelled as lists since the
  caller only takes their \<^verbatim>\<open>np.size\<close> and iterates over them. The message of the
  error evaluates \<^verbatim>\<open>np.min(possible)\<close> and \<^verbatim>\<open>np.max(possible)\<close>, which raise
  themselves when \<^verbatim>\<open>possible\<close> is empty.
\<close>

definition find_bounds ::
    "grid \<Rightarrow> real \<Rightarrow> key \<Rightarrow> (key \<times> real) list \<Rightarrow> error + real list" where
  "find_bounds self value key inputs =
     (let possible = metadata self key in
      if value \<in> set possible then Inr [value]
      else
        (let above = (case np_min (filter (\<lambda>p. p > value) possible) of
                        Inl _ \<Rightarrow> None | Inr m \<Rightarrow> Some m);
             below = (case np_max (filter (\<lambda>p. p \<le> value) possible) of
                        Inl _ \<Rightarrow> None | Inr m \<Rightarrow> Some m)
         in case (above, below) of
              (Some a, Some b) \<Rightarrow> Inr [b, a]
            | _ \<Rightarrow>
                (case np_min possible of
                   Inl e \<Rightarrow> Inl e
                 | Inr lo \<Rightarrow>
                     (case np_max possible of
                        Inl e \<Rightarrow> Inl e
                      | Inr hi \<Rightarrow> Inl (ValueError_outside_limits inputs lo key hi)))))"

subsection \<open>\<^verbatim>\<open>_get_interpolation_weights\<close>\<close>

text \<open>
  The function has no \<^verbatim>\<open>else\<close>: for bounds of any other size it returns Python's
  \<^verbatim>\<open>None\<close>. Division is \<^typ>\<open>real\<close> division; the source divides numpy
  numbers, which do not raise on a zero span.
\<close>

definition get_interpolation_weights :: "real \<Rightarrow> real list \<Rightarrow> real list option" where
  "get_interpolation_weights value bounds =
     (if length bounds = 1 then Some [1]
      else if length bounds = 2 then
        (let span = bounds ! 1 - bounds ! 0;
             weight_below = (bounds ! 1 - value) / span;
             weight_above = (value - bounds ! 0) / span
         in Some [weight_below, weight_above])
      else None)"

subsection \<open>\<^verbatim>\<open>get_spectrum\<close>\<close>

text \<open>
  Lines 588 to 593: the three per-axis weights. The temperature and its bounds go
  through \<^verbatim>\<open>np.log\<close> first.
\<close>

definition axis_weights ::
    "real \<Rightarrow> real \<Rightarrow> real \<Rightarrow> real list \<Rightarrow> real list \<Rightarrow> real list \<Rightarrow>
     real list option \<times> real list option \<times> real list option" where
  "axis_weights temperature logg metallicity bounding_temperature bounding_logg
       bounding_metallicity =
     (let logT = ln temperature;
          bounding_logT = map ln bounding_temperature;
          weight_temperature = get_interpolation_weights logT bounding_logT;
          weight_logg = get_interpolation_weights logg bounding_logg;
          weight_metallicity = get_interpolation_weights metallicity bounding_metallicity
      in (weight_temperature, weight_logg, weight_metallicity))"

text \<open>
  The three nested \<^verbatim>\<open>for\<close> statements of lines 598 to 606 visit the combinations of
  \<^verbatim>\<open>zip(weight, bounding)\<close> pairs with the metallicity running fastest. \<open>lattice\<close>
  lists what each pass works on, the combined weight \<^verbatim>\<open>wt * wg * wz\<close> and the key
  \<^verbatim>\<open>(t, g, z)\<close>, in the order of the passes.
\<close>

definition lattice ::
    "real list \<Rightarrow> real list \<Rightarrow> real list \<Rightarrow> real list \<Rightarrow> real list \<Rightarrow> real list \<Rightarrow>
     (real \<times> model_key) list" where
  "lattice weight_temperature bounding_temperature weight_logg bounding_logg
       weight_metallicity bounding_metallicity =
     [(wt * wg * wz, (t, g, z)).
        (wt, t) \<leftarrow> zip weight_temperature bounding_temperature,
        (wg, g) \<leftarrow> zip weight_logg bounding_logg,
        (wz, z) \<leftarrow> zip weight_metallicity bounding_metallicity]"

text \<open>
  The body of the iteration: store the weight, look the key up (\<^verbatim>\<open>self.models[key]\<close>
  raises \<^verbatim>\<open>KeyError\<close> on a missing key, which ends the call), append the spectrum.
  The result is the arrays \<^verbatim>\<open>weights\<close> and \<^verbatim>\<open>spectra\<close> after the last pass.
\<close>

fun lookup_all ::
    "(model_key \<rightharpoonup> spectrum) \<Rightarrow> (real \<times> model_key) list \<Rightarrow>
     error + (real list \<times> spectrum list)" where
  "lookup_all m [] = Inr ([], [])"
| "lookup_all m ((w, k) # rest) =
     (case m k of
        None \<Rightarrow> Inl (KeyError k)
      | Some this_spectrum \<Rightarrow>
          (case lookup_all m rest of
             Inl e \<Rightarrow> Inl e
           | Inr (weights, spectra) \<Rightarrow> Inr (w # weights, this_spectrum # spectra)))"

text \<open>
  Lines 608 to 610: the assertion on the sum of the weights, then
  \<^verbatim>\<open>weights /= weight_sum\<close>.
\<close>

definition normalized_weights :: "real list \<Rightarrow> error + real list" where
  "normalized_weights weights =
     (let weight_sum = sum_list weights in
      if isclose weight_sum 1 \<or> weight_sum \<le> 1
      then Inr (map (\<lambda>w. w / weight_sum) weights)
      else Inl AssertionError)"

text \<open>
  Lines 588 to 610 together: from the bounds to the arrays \<^verbatim>\<open>weights\<close> (divided by
  their sum) and \<^verbatim>\<open>spectra\<close> that line 611 combines. A weight that is \<^verbatim>\<open>None\<close>
  makes \<^verbatim>\<open>zip\<close> raise \<^verbatim>\<open>TypeError\<close>.
\<close>

definition interpolate ::
    "grid \<Rightarrow> real \<Rightarrow> real \<Rightarrow> real \<Rightarrow> real list \<Rightarrow> real list \<Rightarrow> real list \<Rightarrow>
     error + (real list \<times> spectrum list)" where
  "interpolate self temperature logg metallicity bounding_temperature bounding_logg
       bounding_metallicity =
     (case axis_weights temperature logg metallicity bounding_temperature bounding_logg
             bounding_metallicity of
        (Some weight_temperature, Some weight_logg, Some weight_metallicity) \<Rightarrow>
          (case lookup_all (models self)
                  (lattice weight_temperature bounding_temperature weight_logg bounding_logg
                     weight_metallicity bounding_metallicity) of
             Inl e \<Rightarrow> Inl e
           | Inr (weights, spectra) \<Rightarrow>
               (case normalized_weights weights of
                  Inl e \<Rightarrow> Inl e
                | Inr weights' \<Rightarrow> Inr (weights', spectra)))
      | _ \<Rightarrow> Inl TypeError)"

text \<open>\<^verbatim>\<open>inputs = dict(temperature=temperature, logg=logg, metallicity=metallicity)\<close>\<close>

definition inputs_dict :: "real \<Rightarrow> real \<Rightarrow> real \<Rightarrow> (key \<times> real) list" where
  "inputs_dict temperature logg metallicity =
     [(Temperature, temperature), (Logg, logg), (Metallicity, metallicity)]"

definition get_spectrum :: "grid \<Rightarrow> real \<Rightarrow> real \<Rightarrow> real \<Rightarrow> error + (real list \<times> spectrum)" where
  "get_spectrum self temperature logg metallicity =
     (let inputs = inputs_dict temperature logg metallicity in
      case find_bounds self temperature Temperature inputs of
        Inl e \<Rightarrow> Inl e
      | Inr bounding_temperature \<Rightarrow>
     (case find_bounds self logg Logg inputs of
        Inl e \<Rightarrow> Inl e
      | Inr bounding_logg \<Rightarrow>
     (case find_bounds self metallicity Metallicity inputs of
        Inl e \<Rightarrow> Inl e
      | Inr bounding_metallicity \<Rightarrow>
      (let N = length bounding_temperature * length bounding_logg
                 * length bounding_metallicity in
       if N = 1 then
         (let key = (bounding_temperature ! 0, bounding_logg ! 0, bounding_metallicity ! 0) in
          case models self key of
            None \<Rightarrow> Inl (KeyError key)
          | Some spectrum \<Rightarrow> Inr (wavelength self, spectrum))
       else
         (case interpolate self temperature logg metallicity bounding_temperature
                 bounding_logg bounding_metallicity of
            Inl e \<Rightarrow> Inl e
          | Inr (weights, spectra) \<Rightarrow>
              (case weighted_sum weights spectra of
                 Inl e \<Rightarrow> Inl e
               | Inr spectrum \<Rightarrow> Inr (wavelength self, spectrum)))))))"

subsection \<open>Grids as \<^verbatim>\<open>_create_grid\<close> writes them\<close>

text \<open>Component \<open>i\<close> of a key, \<^verbatim>\<open>x[i]\<close>, for the \<open>i\<close>-th indexing key.\<close>

fun coordinate :: "key \<Rightarrow> model_key \<Rightarrow> real" where
  "coordinate Temperature (t, g, z) = t"
| "coordinate Logg (t, g, z) = g"
| "coordinate Metallicity (t, g, z) = z"

text \<open>
  Lines 441 and 442, \<^verbatim>\<open>shared[k] = np.unique([x[i] for x in d])\<close>: the axis values
  stored for an indexing key are the values that key takes in the keys of the
  dictionary, each once and in ascending order.
\<close>

definition unique_key_values :: "grid \<Rightarrow> bool" where
  "unique_key_values self =
     (\<forall>k. sorted_wrt (<) (metadata self k)
          \<and> set (metadata self k) = coordinate k ` dom (models self))"

text \<open>
  A small grid for concrete evaluations: two temperatures, two values of
  \<^verbatim>\<open>logg\<close>, one metallicity, three wavelength bins.
\<close>

definition example_grid :: grid where
  "example_grid =
     \<lparr>metadata = (\<lambda>k. case k of Temperature \<Rightarrow> [3000, 3500] | Logg \<Rightarrow> [4, 5]
                            | Metallicity \<Rightarrow> [0]),
      wavelength = [1, 2, 3],
      models = [(3000, 4, 0) \<mapsto> [1, 2, 3], (3000, 5, 0) \<mapsto> [4, 5, 6],
                (3500, 4, 0) \<mapsto> [7, 8, 9], (3500, 5, 0) \<mapsto> [10, 11, 12]]\<rparr>"

text \<open>The same grid without the spectrum of the key \<^verbatim>\<open>(3500, 5, 0)\<close>.\<close>

definition sparse_grid :: grid where
  "sparse_grid =
     \<lparr>metadata = (\<lambda>k. case k of Temperature \<Rightarrow> [3000, 3500] | Logg \<Rightarrow> [4, 5]
                            | Metallicity \<Rightarrow> [0]),
      wavelength = [1, 2, 3],
      models = [(3000, 4, 0) \<mapsto> [1, 2, 3], (3000, 5, 0) \<mapsto> [4, 5, 6],
                (3500, 4, 0) \<mapsto> [7, 8, 9]]\<rparr>"

section \<open>Properties\<close>

subsection \<open>numpy reductions and the example grids\<close>

lemma np_min_nonempty: "xs \<noteq> [] \<Longrightarrow> np_min xs = Inr (Min (set xs))"
  by (cases xs) (simp_all add: np_min_def Min.set_eq_fold [symmetric])

lemma np_max_nonempty: "xs \<noteq> [] \<Longrightarrow> np_max xs = Inr (Max (set xs))"
  by (cases xs) (simp_all add: np_max_def Max.set_eq_fold [symmetric])

lemma np_min_empty: "np_min [] = Inl ValueError_zero_size"
  by (simp add: np_min_def)

lemma np_max_empty: "np_max [] = Inl ValueError_zero_size"
  by (simp add: np_max_def)

lemma all_key: "(\<forall>k. P k) = (P Temperature \<and> P Logg \<and> P Metallicity)"
  by (metis key.exhaust)

lemma unique_key_values_example: "unique_key_values example_grid"
  by (auto simp add: unique_key_values_def all_key example_grid_def)

subsection \<open>Facts about \<^verbatim>\<open>_find_bounds\<close>\<close>

lemma find_bounds_exact:
  "value \<in> set (metadata self key) \<Longrightarrow> find_bounds self value key inputs = Inr [value]"
  by (simp add: find_bounds_def)

lemma find_bounds_enclosing:
  assumes "value \<notin> set (metadata self key)"
    and "filter (\<lambda>p. p > value) (metadata self key) \<noteq> []"
    and "filter (\<lambda>p. p \<le> value) (metadata self key) \<noteq> []"
  shows "find_bounds self value key inputs =
           Inr [Max {b \<in> set (metadata self key). b \<le> value},
                Min {a \<in> set (metadata self key). value < a}]"
  using assms by (simp add: find_bounds_def Let_def np_min_nonempty np_max_nonempty)


lemma find_bounds_shape:
  assumes "find_bounds self value key inputs = Inr bounds"
  shows "(bounds = [value] \<and> value \<in> set (metadata self key)) \<or>
         (\<exists>lower upper. bounds = [lower, upper] \<and> lower \<in> set (metadata self key) \<and>
            upper \<in> set (metadata self key) \<and> lower < value \<and> value < upper)"
proof (cases "value \<in> set (metadata self key)")
  case True
  then show ?thesis using assms by (simp add: find_bounds_exact)
next
  case False
  let ?possible = "metadata self key"
  let ?B = "{b \<in> set ?possible. b \<le> value}"
  let ?A = "{a \<in> set ?possible. value < a}"
  show ?thesis
  proof (cases "filter (\<lambda>p. p > value) ?possible = []
                \<or> filter (\<lambda>p. p \<le> value) ?possible = []")
    case True
    then have "\<exists>e. find_bounds self value key inputs = Inl e"
      using False
      by (auto simp add: find_bounds_def Let_def np_min_nonempty np_max_nonempty np_min_empty
        np_max_empty split: sum.splits option.splits)
    then show ?thesis using assms by auto
  next
    case ne: False
    then have res: "find_bounds self value key inputs = Inr [Max ?B, Min ?A]"
      using False by (simp add: find_bounds_enclosing)
    have "?B \<noteq> {}" and "?A \<noteq> {}"
      using ne by (auto simp add: filter_empty_conv)
    then have "Max ?B \<in> ?B" and "Min ?A \<in> ?A"
      using Max_in [of ?B] Min_in [of ?A] by simp_all
    then have "Max ?B \<in> set ?possible" "Min ?A \<in> set ?possible" "Max ?B \<le> value"
      "value < Min ?A" by simp_all
    moreover have "Max ?B \<noteq> value" using False \<open>Max ?B \<in> set ?possible\<close> by metis
    ultimately show ?thesis using res assms by auto
  qed
qed

lemma example_bounds:
  "find_bounds example_grid 3250 Temperature i = Inr [3000, 3500]"
  "find_bounds example_grid (9 / 2) Logg i = Inr [4, 5]"
  "find_bounds example_grid 4 Logg i = Inr [4]"
  "find_bounds example_grid 0 Metallicity i = Inr [0]"
  by (simp_all add: example_grid_def find_bounds_def np_min_def np_max_def)

lemma sparse_bounds:
  "find_bounds sparse_grid 3250 Temperature i = Inr [3000, 3500]"
  "find_bounds sparse_grid (9 / 2) Logg i = Inr [4, 5]"
  "find_bounds sparse_grid 0 Metallicity i = Inr [0]"
  by (simp_all add: sparse_grid_def find_bounds_def np_min_def np_max_def)

subsection \<open>Facts about \<^verbatim>\<open>np.flatnonzero\<close>\<close>

lemma upt_split_first:
  assumes "[0..<n] = us @ i # vs"
  shows "i < n \<and> set us = {0..<i}"
proof -
  have "sorted_wrt (<) (us @ i # vs)"
    using assms by (metis sorted_wrt_upt)
  then have lt: "\<forall>u \<in> set us. u < i" and gt: "\<forall>v \<in> set vs. i < v"
    by (auto simp add: sorted_wrt_append)
  have s: "set us \<union> {i} \<union> set vs = {0..<n}"
  proof -
    have "set [0..<n] = set (us @ i # vs)" using assms by simp
    then show ?thesis by auto
  qed
  then have "i < n" by auto
  moreover have "set us = {0..<i}"
  proof (intro equalityI subsetI)
    fix u assume "u \<in> set us" then show "u \<in> {0..<i}" using lt by simp
  next
    fix j assume "j \<in> {0..<i}"
    then have "j < i" by simp
    then have "j \<in> {0..<n}" using \<open>i < n\<close> by simp
    then have "j \<in> set us \<union> {i} \<union> set vs" using s by simp
    then show "j \<in> set us" using \<open>j < i\<close> gt by auto
  qed
  ultimately show ?thesis by simp
qed

lemma flatnonzero_Nil:
  "(flatnonzero (map P xs) = []) = (\<forall>x \<in> set xs. \<not> P x)"
proof
  assume "flatnonzero (map P xs) = []"
  then have "\<forall>i<length xs. \<not> P (xs ! i)"
    by (simp add: flatnonzero_def filter_empty_conv)
  then show "\<forall>x \<in> set xs. \<not> P x"
    by (auto simp add: in_set_conv_nth)
next
  assume "\<forall>x \<in> set xs. \<not> P x"
  then have "\<forall>i<length xs. \<not> P (xs ! i)"
    using nth_mem by blast
  then show "flatnonzero (map P xs) = []"
    by (simp add: flatnonzero_def filter_empty_conv)
qed

lemma flatnonzero_Cons:
  assumes "flatnonzero (map P xs) = i # rest"
  shows "i < length xs \<and> P (xs ! i) \<and> (\<forall>j<i. \<not> P (xs ! j))"
proof -
  let ?Q = "\<lambda>i. map P xs ! i"
  from assms obtain us vs where
    split: "[0..<length xs] = us @ i # vs" and no: "\<forall>u \<in> set us. \<not> ?Q u" and yes: "?Q i"
    unfolding flatnonzero_def by (auto simp add: filter_eq_Cons_iff)
  from upt_split_first [OF split] have i: "i < length xs" and us: "set us = {0..<i}"
    by simp_all
  have "P (xs ! i)" using yes i by simp
  moreover have "\<not> P (xs ! j)" if "j < i" for j
  proof -
    have "j \<in> set us" using that us by simp
    then have "\<not> ?Q j" using no by blast
    then show ?thesis using that i by simp
  qed
  ultimately show ?thesis using i by blast
qed

lemma find_smallest_R_too_large:
  assumes "\<forall>a \<in> set resolutions. a < R"
  shows "find_smallest_R resolutions R = Inl IndexError"
proof -
  have "flatnonzero (map (\<lambda>a. a \<ge> R) resolutions) = []"
    using assms by (simp add: flatnonzero_Nil not_le)
  then show ?thesis by (simp add: find_smallest_R_def)
qed

lemma sorted_available: "sorted available_resolutions"
  by (simp add: available_resolutions_def)

subsection \<open>Facts about the weights\<close>

lemma weights_of_bounds:
  assumes "length bounds = 1 \<or> length bounds = 2"
  shows "\<exists>w. get_interpolation_weights v bounds = Some w \<and> length w = length bounds"
  using assms by (auto simp add: get_interpolation_weights_def Let_def)

lemma two_weights_sum:
  assumes "(lo::real) \<noteq> hi"
  shows "(hi - v) / (hi - lo) + (v - lo) / (hi - lo) = 1"
  using assms by (simp add: add_divide_distrib [symmetric])

lemma weights_sum_one:
  assumes "bounds = [x] \<or> (\<exists>lo hi. bounds = [lo, hi] \<and> lo \<noteq> hi)"
    and "get_interpolation_weights v bounds = Some w"
  shows "sum_list w = 1"
  using assms by (auto simp add: get_interpolation_weights_def Let_def two_weights_sum)

lemma axis_weights_defined:
  assumes "find_bounds self temperature Temperature i1 = Inr bT"
    and "find_bounds self logg Logg i2 = Inr bG"
    and "find_bounds self metallicity Metallicity i3 = Inr bZ"
  shows "\<exists>wT wG wZ. axis_weights temperature logg metallicity bT bG bZ = (Some wT, Some wG, Some wZ)
           \<and> length wT = length bT \<and> length wG = length bG \<and> length wZ = length bZ"
proof -
  have "length (map ln bT) = 1 \<or> length (map ln bT) = 2"
    using find_bounds_shape [OF assms(1)] by auto
  from weights_of_bounds [OF this] obtain wT
    where "get_interpolation_weights (ln temperature) (map ln bT) = Some wT"
      and "length wT = length bT" by auto
  moreover have "length bG = 1 \<or> length bG = 2"
    using find_bounds_shape [OF assms(2)] by auto
  from weights_of_bounds [OF this] obtain wG
    where "get_interpolation_weights logg bG = Some wG" and "length wG = length bG" by auto
  moreover have "length bZ = 1 \<or> length bZ = 2"
    using find_bounds_shape [OF assms(3)] by auto
  from weights_of_bounds [OF this] obtain wZ
    where "get_interpolation_weights metallicity bZ = Some wZ" and "length wZ = length bZ" by auto
  ultimately show ?thesis by (simp add: axis_weights_def)
qed

lemma axis_weights_sums:
  assumes "find_bounds self temperature Temperature i1 = Inr bT"
    and "find_bounds self logg Logg i2 = Inr bG"
    and "find_bounds self metallicity Metallicity i3 = Inr bZ"
    and "\<forall>t \<in> set (metadata self Temperature). 0 < t"
    and "axis_weights temperature logg metallicity bT bG bZ = (Some wT, Some wG, Some wZ)"
  shows "sum_list wT = 1 \<and> sum_list wG = 1 \<and> sum_list wZ = 1"
proof -
  have wT: "get_interpolation_weights (ln temperature) (map ln bT) = Some wT"
    and wG: "get_interpolation_weights logg bG = Some wG"
    and wZ: "get_interpolation_weights metallicity bZ = Some wZ"
    using assms(5) by (simp_all add: axis_weights_def)
  have "map ln bT = [ln temperature] \<or> (\<exists>lo hi. map ln bT = [lo, hi] \<and> lo \<noteq> hi)"
  proof (rule disjE [OF find_bounds_shape [OF assms(1)]])
    assume "bT = [temperature] \<and> temperature \<in> set (metadata self Temperature)"
    then show ?thesis by simp
  next
    assume "\<exists>lower upper. bT = [lower, upper] \<and> lower \<in> set (metadata self Temperature) \<and>
              upper \<in> set (metadata self Temperature) \<and> lower < temperature \<and> temperature < upper"
    then obtain lower upper where b: "bT = [lower, upper]"
      and "lower \<in> set (metadata self Temperature)" and "lower < temperature" "temperature < upper"
      by blast
    then have "0 < lower" "lower < upper" using assms(4) by auto
    then have "ln lower < ln upper" by simp
    then show ?thesis using b by simp
  qed
  then have "sum_list wT = 1" using wT by (rule weights_sum_one)
  moreover have "bG = [logg] \<or> (\<exists>lo hi. bG = [lo, hi] \<and> lo \<noteq> hi)"
    using find_bounds_shape [OF assms(2)] by fastforce
  then have "sum_list wG = 1" using wG by (rule weights_sum_one)
  moreover have "bZ = [metallicity] \<or> (\<exists>lo hi. bZ = [lo, hi] \<and> lo \<noteq> hi)"
    using find_bounds_shape [OF assms(3)] by fastforce
  then have "sum_list wZ = 1" using wZ by (rule weights_sum_one)
  ultimately show ?thesis by simp
qed

subsection \<open>Facts about the iteration over the combinations\<close>

lemma sum_list_inner:
  fixes c :: real and C :: "(real \<times> real) list"
  shows "sum_list (map fst [(c * wz, f z). (wz, z) \<leftarrow> C]) = c * sum_list (map fst C)"
  by (induction C) (auto simp add: distrib_left)

lemma sum_list_middle:
  fixes wt :: real and B C :: "(real \<times> real) list"
  shows "sum_list (map fst [(wt * wg * wz, (t, g, z)). (wg, g) \<leftarrow> B, (wz, z) \<leftarrow> C])
     = wt * sum_list (map fst B) * sum_list (map fst C)"
proof (induction B)
  case Nil
  then show ?case by simp
next
  case (Cons p B)
  obtain wg g where p: "p = (wg, g)" by (cases p)
  have "sum_list (map fst [(wt * wg * wz, (t, g, z)). (wz, z) \<leftarrow> C])
          = wt * wg * sum_list (map fst C)"
    by (rule sum_list_inner)
  then have "sum_list (map fst [(wt * wg * wz, (t, g, z)). (wg, g) \<leftarrow> p # B, (wz, z) \<leftarrow> C])
          = wt * wg * sum_list (map fst C) + wt * sum_list (map fst B) * sum_list (map fst C)"
    using Cons by (simp add: p)
  also have "\<dots> = wt * sum_list (map fst (p # B)) * sum_list (map fst C)"
    by (simp add: p distrib_left distrib_right)
  finally show ?case .
qed

lemma sum_list_outer:
  fixes A B C :: "(real \<times> real) list"
  shows "sum_list (map fst [(wt * wg * wz, (t, g, z)). (wt, t) \<leftarrow> A, (wg, g) \<leftarrow> B, (wz, z) \<leftarrow> C])
     = sum_list (map fst A) * sum_list (map fst B) * sum_list (map fst C)"
proof (induction A)
  case Nil
  then show ?case by simp
next
  case (Cons p A)
  obtain wt t where p: "p = (wt, t)" by (cases p)
  have "sum_list (map fst [(wt * wg * wz, (t, g, z)). (wt, t) \<leftarrow> p # A, (wg, g) \<leftarrow> B, (wz, z) \<leftarrow> C])
          = sum_list (map fst [(wt * wg * wz, (t, g, z)). (wg, g) \<leftarrow> B, (wz, z) \<leftarrow> C])
            + sum_list (map fst [(wt * wg * wz, (t, g, z)). (wt, t) \<leftarrow> A, (wg, g) \<leftarrow> B, (wz, z) \<leftarrow> C])"
    by (simp add: p)
  also have "\<dots> = wt * sum_list (map fst B) * sum_list (map fst C)
                   + sum_list (map fst A) * sum_list (map fst B) * sum_list (map fst C)"
    by (simp only: sum_list_middle Cons.IH)
  also have "\<dots> = sum_list (map fst (p # A)) * sum_list (map fst B) * sum_list (map fst C)"
    by (simp add: p distrib_right)
  finally show ?case .
qed

lemma sum_list_lattice:
  "length wT = length bT \<Longrightarrow> length wG = length bG \<Longrightarrow> length wZ = length bZ \<Longrightarrow>
   sum_list (map fst (lattice wT bT wG bG wZ bZ)) = sum_list wT * sum_list wG * sum_list wZ"
  by (simp add: lattice_def sum_list_outer)

lemma length_middle:
  fixes wt :: real and B C :: "(real \<times> real) list"
  shows "length [(wt * wg * wz, (t, g, z)). (wg, g) \<leftarrow> B, (wz, z) \<leftarrow> C]
     = length B * length C"
  by (induction B) auto

lemma length_outer:
  fixes A B C :: "(real \<times> real) list"
  shows "length [(wt * wg * wz, (t, g, z)). (wt, t) \<leftarrow> A, (wg, g) \<leftarrow> B, (wz, z) \<leftarrow> C]
     = length A * length B * length C"
proof (induction A)
  case Nil
  then show ?case by simp
next
  case (Cons p A)
  obtain wt t where p: "p = (wt, t)" by (cases p)
  show ?case using Cons by (simp add: p length_middle add_mult_distrib)
qed

lemma length_lattice:
  "length wT = length bT \<Longrightarrow> length wG = length bG \<Longrightarrow> length wZ = length bZ \<Longrightarrow>
   length (lattice wT bT wG bG wZ bZ) = length bT * length bG * length bZ"
  by (simp add: lattice_def length_outer)

lemma keys_lattice:
  assumes "length wT = length bT" "length wG = length bG" "length wZ = length bZ"
  shows "snd ` set (lattice wT bT wG bG wZ bZ) = set bT \<times> set bG \<times> set bZ"
proof -
  have "snd ` set (lattice wT bT wG bG wZ bZ)
          = snd ` set (zip wT bT) \<times> snd ` set (zip wG bG) \<times> snd ` set (zip wZ bZ)"
    by (force simp add: lattice_def)
  moreover have "snd ` set (zip w b) = set b" if "length w = length b" for w b :: "real list"
    using that by (metis map_snd_zip set_map)
  ultimately show ?thesis using assms by simp
qed


lemma lookup_all_missing:
  "\<exists>k \<in> snd ` set xs. m k = None \<Longrightarrow>
   \<exists>k \<in> snd ` set xs. m k = None \<and> lookup_all m xs = Inl (KeyError k)"
proof (induction xs)
  case Nil
  then show ?case by simp
next
  case (Cons p xs)
  obtain w k where p: "p = (w, k)" by (cases p)
  show ?case
  proof (cases "m k")
    case None
    then show ?thesis by (simp add: p)
  next
    case (Some s)
    then have "\<exists>k \<in> snd ` set xs. m k = None"
      using Cons.prems by (auto simp add: p)
    then obtain k' where "k' \<in> snd ` set xs" "m k' = None" "lookup_all m xs = Inl (KeyError k')"
      using Cons.IH by blast
    then show ?thesis using Some by (auto simp add: p)
  qed
qed

lemma lookup_all_weights:
  "lookup_all m xs = Inr (weights, spectra) \<Longrightarrow> weights = map fst xs"
  by (induction xs arbitrary: weights spectra) (auto split: option.splits sum.splits)

subsection \<open>Facts about the check of the sum and the last steps\<close>


lemma isclose_one: "isclose 1 1"
  by (simp add: isclose_def)


lemma normalized_weights_unit_sum:
  assumes "sum_list ws = 1"
  shows "normalized_weights ws = Inr ws"
  using assms by (simp add: normalized_weights_def Let_def isclose_one)

lemma interpolate_two_points:
  assumes "axis_weights temperature logg metallicity bT bG bZ = (Some wT, Some wG, Some wZ)"
    and "lattice wT bT wG bG wZ bZ = [(w1, k1), (w2, k2)]"
    and "w1 + w2 = 1"
    and "models self k1 = Some s1" and "models self k2 = Some s2"
  shows "interpolate self temperature logg metallicity bT bG bZ = Inr ([w1, w2], [s1, s2])"
proof -
  have "lookup_all (models self) (lattice wT bT wG bG wZ bZ) = Inr ([w1, w2], [s1, s2])"
    by (simp add: assms(2,4,5))
  moreover have "normalized_weights [w1, w2] = Inr [w1, w2]"
    by (rule normalized_weights_unit_sum) (simp add: assms(3))
  ultimately show ?thesis
    by (simp add: interpolate_def assms(1))
qed

lemma get_spectrum_interpolated:
  assumes "find_bounds self temperature Temperature (inputs_dict temperature logg metallicity) = Inr bT"
    and "find_bounds self logg Logg (inputs_dict temperature logg metallicity) = Inr bG"
    and "find_bounds self metallicity Metallicity (inputs_dict temperature logg metallicity) = Inr bZ"
    and "length bT * length bG * length bZ \<noteq> 1"
  shows "get_spectrum self temperature logg metallicity =
           (case interpolate self temperature logg metallicity bT bG bZ of
              Inl e \<Rightarrow> Inl e
            | Inr (weights, spectra) \<Rightarrow>
                (case weighted_sum weights spectra of
                   Inl e \<Rightarrow> Inl e
                 | Inr spectrum \<Rightarrow> Inr (wavelength self, spectrum)))"
  unfolding get_spectrum_def Let_def assms(1,2,3) sum.case
  using assms(4) by (simp only: if_False)

lemma get_spectrum_example_between_logg:
  "get_spectrum example_grid 3000 (9 / 2) 0 = Inr ([1, 2, 3], [5 / 2, 7 / 2, 9 / 2])"
  by (simp add: get_spectrum_def example_grid_def find_bounds_def inputs_dict_def np_min_def
        np_max_def interpolate_def axis_weights_def get_interpolation_weights_def lattice_def
        normalized_weights_def isclose_def weighted_sum_def upt_rec)

subsection \<open>Exact grid points\<close>

text \<open>
  Claim C1. In a grid whose axis values are those of its keys, as \<^verbatim>\<open>_create_grid\<close>
  stores them, a query whose triple is a key of \<^verbatim>\<open>models\<close> gets the spectrum stored
  under that key, as it is stored, together with the wavelength array of the grid.
\<close>

theorem get_spectrum_exact_key:
  assumes "unique_key_values self"
    and "models self (temperature, logg, metallicity) = Some spectrum"
  shows "get_spectrum self temperature logg metallicity = Inr (wavelength self, spectrum)"
proof -
  have k: "(temperature, logg, metallicity) \<in> dom (models self)"
    using assms(2) by blast
  have "coordinate Temperature (temperature, logg, metallicity) \<in> set (metadata self Temperature)"
    using assms(1) k unfolding unique_key_values_def by blast
  then have t: "find_bounds self temperature Temperature i = Inr [temperature]" for i
    by (simp add: find_bounds_exact)
  have "coordinate Logg (temperature, logg, metallicity) \<in> set (metadata self Logg)"
    using assms(1) k unfolding unique_key_values_def by blast
  then have g: "find_bounds self logg Logg i = Inr [logg]" for i
    by (simp add: find_bounds_exact)
  have "coordinate Metallicity (temperature, logg, metallicity) \<in> set (metadata self Metallicity)"
    using assms(1) k unfolding unique_key_values_def by blast
  then have z: "find_bounds self metallicity Metallicity i = Inr [metallicity]" for i
    by (simp add: find_bounds_exact)
  show ?thesis
    by (simp add: get_spectrum_def t g z assms(2))
qed

theorem get_spectrum_exact_key_witness:
  "get_spectrum example_grid 3500 4 0 = Inr ([1, 2, 3], [7, 8, 9])"
  using get_spectrum_exact_key [OF unique_key_values_example, of 3500 4 0 "[7, 8, 9]"]
  by (simp add: example_grid_def)

subsection \<open>Bounds on one axis\<close>

text \<open>
  Claim C2. A value that is among the axis values gets the one-element bound holding
  that value. A value that is not, with an axis value above it and one below it, gets
  the pair of the largest axis value that is at most the value and the smallest axis
  value that is greater, in this order, and the value lies between the two.
\<close>

theorem find_bounds_exact_or_pair:
  "(value \<in> set (metadata self key) \<longrightarrow> find_bounds self value key inputs = Inr [value]) \<and>
   (value \<notin> set (metadata self key) \<longrightarrow>
    (\<exists>a \<in> set (metadata self key). value < a) \<longrightarrow>
    (\<exists>b \<in> set (metadata self key). b \<le> value) \<longrightarrow>
      (\<exists>lower upper.
         find_bounds self value key inputs = Inr [lower, upper] \<and>
         lower = Max {b \<in> set (metadata self key). b \<le> value} \<and>
         upper = Min {a \<in> set (metadata self key). value < a} \<and>
         lower \<in> set (metadata self key) \<and> upper \<in> set (metadata self key) \<and>
         lower \<le> value \<and> value \<le> upper))"
proof (intro conjI impI)
  assume "value \<in> set (metadata self key)"
  then show "find_bounds self value key inputs = Inr [value]"
    by (rule find_bounds_exact)
next
  let ?possible = "metadata self key"
  let ?B = "{b \<in> set ?possible. b \<le> value}"
  let ?A = "{a \<in> set ?possible. value < a}"
  assume notin: "value \<notin> set ?possible"
    and ex_above: "\<exists>a \<in> set ?possible. value < a"
    and ex_below: "\<exists>b \<in> set ?possible. b \<le> value"
  have finB: "finite ?B" and finA: "finite ?A" by simp_all
  have neB: "?B \<noteq> {}" using ex_below by blast
  have neA: "?A \<noteq> {}" using ex_above by blast
  have fA: "filter (\<lambda>p. p > value) ?possible \<noteq> []"
    using ex_above by (simp add: filter_empty_conv)
  have fB: "filter (\<lambda>p. p \<le> value) ?possible \<noteq> []"
    using ex_below by (simp add: filter_empty_conv)
  have res: "find_bounds self value key inputs = Inr [Max ?B, Min ?A]"
    using notin fA fB by (rule find_bounds_enclosing)
  have inB: "Max ?B \<in> ?B" using finB neB by (rule Max_in)
  have inA: "Min ?A \<in> ?A" using finA neA by (rule Min_in)
  show "\<exists>lower upper.
         find_bounds self value key inputs = Inr [lower, upper] \<and>
         lower = Max ?B \<and> upper = Min ?A \<and>
         lower \<in> set ?possible \<and> upper \<in> set ?possible \<and>
         lower \<le> value \<and> value \<le> upper"
    using res inB inA by auto
qed

theorem find_bounds_exact_or_pair_witness:
  "find_bounds example_grid 3500 Temperature [] = Inr [3500] \<and>
   (\<exists>lower upper. find_bounds example_grid 3250 Temperature [] = Inr [lower, upper] \<and>
      lower \<in> {3000, 3500} \<and> upper \<in> {3000, 3500} \<and> lower \<le> 3250 \<and> 3250 \<le> upper)"
  using find_bounds_exact_or_pair [of 3500 example_grid Temperature "[]"]
    find_bounds_exact_or_pair [of 3250 example_grid Temperature "[]"]
  by (auto simp add: example_grid_def)



subsection \<open>Weights on one axis\<close>



text \<open>
  Claim C4. The weights of the temperature axis are those of the logarithm of the
  query temperature between the logarithms of its two bounds; the weights of
  \<^verbatim>\<open>logg\<close> and of the metallicity are those of the value between its bounds, as
  they are. The last two parts follow the weights to the end of the interpolation: when
  only the temperature lies between two grid values (which are positive), the weights
  that \<^verbatim>\<open>get_spectrum\<close> applies to the two spectra are the logarithmic ones, and
  when only \<^verbatim>\<open>logg\<close> does, they are the linear ones.
\<close>

theorem temperature_weights_in_log_space:
  "fst (axis_weights temperature logg metallicity [tlo, thi] bG bZ) =
     Some [(ln thi - ln temperature) / (ln thi - ln tlo),
           (ln temperature - ln tlo) / (ln thi - ln tlo)] \<and>
   fst (snd (axis_weights temperature logg metallicity bT [glo, ghi] bZ)) =
     Some [(ghi - logg) / (ghi - glo), (logg - glo) / (ghi - glo)] \<and>
   snd (snd (axis_weights temperature logg metallicity bT bG [zlo, zhi])) =
     Some [(zhi - metallicity) / (zhi - zlo), (metallicity - zlo) / (zhi - zlo)] \<and>
   (0 < tlo \<longrightarrow> tlo < thi \<longrightarrow>
    models self (tlo, logg, metallicity) = Some s1 \<longrightarrow>
    models self (thi, logg, metallicity) = Some s2 \<longrightarrow>
      interpolate self temperature logg metallicity [tlo, thi] [logg] [metallicity] =
        Inr ([(ln thi - ln temperature) / (ln thi - ln tlo),
              (ln temperature - ln tlo) / (ln thi - ln tlo)], [s1, s2])) \<and>
   (glo < ghi \<longrightarrow>
    models self (temperature, glo, metallicity) = Some s3 \<longrightarrow>
    models self (temperature, ghi, metallicity) = Some s4 \<longrightarrow>
      interpolate self temperature logg metallicity [temperature] [glo, ghi] [metallicity] =
        Inr ([(ghi - logg) / (ghi - glo), (logg - glo) / (ghi - glo)], [s3, s4]))"
proof (intro conjI impI)
  show "fst (axis_weights temperature logg metallicity [tlo, thi] bG bZ) =
     Some [(ln thi - ln temperature) / (ln thi - ln tlo),
           (ln temperature - ln tlo) / (ln thi - ln tlo)]"
    by (simp add: axis_weights_def get_interpolation_weights_def Let_def)
  show "fst (snd (axis_weights temperature logg metallicity bT [glo, ghi] bZ)) =
     Some [(ghi - logg) / (ghi - glo), (logg - glo) / (ghi - glo)]"
    by (simp add: axis_weights_def get_interpolation_weights_def Let_def)
  show "snd (snd (axis_weights temperature logg metallicity bT bG [zlo, zhi])) =
     Some [(zhi - metallicity) / (zhi - zlo), (metallicity - zlo) / (zhi - zlo)]"
    by (simp add: axis_weights_def get_interpolation_weights_def Let_def)
next
  let ?w1 = "(ln thi - ln temperature) / (ln thi - ln tlo)"
  let ?w2 = "(ln temperature - ln tlo) / (ln thi - ln tlo)"
  assume "0 < tlo" "tlo < thi"
    and s: "models self (tlo, logg, metallicity) = Some s1"
      "models self (thi, logg, metallicity) = Some s2"
  then have "ln tlo \<noteq> ln thi" by simp
  then have one: "?w1 + ?w2 = 1" by (rule two_weights_sum)
  have aw: "axis_weights temperature logg metallicity [tlo, thi] [logg] [metallicity] =
              (Some [?w1, ?w2], Some [1], Some [1])"
    by (simp add: axis_weights_def get_interpolation_weights_def Let_def)
  have la: "lattice [?w1, ?w2] [tlo, thi] [1] [logg] [1] [metallicity] =
              [(?w1, (tlo, logg, metallicity)), (?w2, (thi, logg, metallicity))]"
    by (simp add: lattice_def)
  show "interpolate self temperature logg metallicity [tlo, thi] [logg] [metallicity] =
          Inr ([?w1, ?w2], [s1, s2])"
    using aw la one s by (rule interpolate_two_points)
next
  let ?w1 = "(ghi - logg) / (ghi - glo)"
  let ?w2 = "(logg - glo) / (ghi - glo)"
  assume "glo < ghi"
    and s: "models self (temperature, glo, metallicity) = Some s3"
      "models self (temperature, ghi, metallicity) = Some s4"
  then have "glo \<noteq> ghi" by simp
  then have one: "?w1 + ?w2 = 1" by (rule two_weights_sum)
  have aw: "axis_weights temperature logg metallicity [temperature] [glo, ghi] [metallicity] =
              (Some [1], Some [?w1, ?w2], Some [1])"
    by (simp add: axis_weights_def get_interpolation_weights_def Let_def)
  have la: "lattice [1] [temperature] [?w1, ?w2] [glo, ghi] [1] [metallicity] =
              [(?w1, (temperature, glo, metallicity)), (?w2, (temperature, ghi, metallicity))]"
    by (simp add: lattice_def)
  show "interpolate self temperature logg metallicity [temperature] [glo, ghi] [metallicity] =
          Inr ([?w1, ?w2], [s3, s4])"
    using aw la one s by (rule interpolate_two_points)
qed

theorem temperature_weights_in_log_space_witness:
  "interpolate example_grid 3250 4 0 [3000, 3500] [4] [0] =
     Inr ([(ln 3500 - ln 3250) / (ln 3500 - ln 3000),
           (ln 3250 - ln 3000) / (ln 3500 - ln 3000)], [[1, 2, 3], [7, 8, 9]]) \<and>
   interpolate example_grid 3000 (9 / 2) 0 [3000] [4, 5] [0] =
     Inr ([1 / 2, 1 / 2], [[1, 2, 3], [4, 5, 6]])"
  using temperature_weights_in_log_space
      [of 3250 4 0 3000 3500 _ _ _ _ _ _ _ example_grid "[1, 2, 3]" "[7, 8, 9]"]
    temperature_weights_in_log_space
      [of 3000 "9 / 2" 0 _ _ _ _ _ 4 5 _ _ example_grid _ _ "[1, 2, 3]" "[4, 5, 6]"]
  by (simp add: example_grid_def)

subsection \<open>The combined weights\<close>

text \<open>
  Claim C3. For a query inside the grid that is not an exact grid point, on a grid of
  positive temperatures, the three per-axis weights exist, the iteration forms one combined
  weight for each of the at most 8 combinations of bounds (the first components of
  \<open>lattice\<close>), and these combined weights add up to 1; in particular the sum is
  within the tolerance of \<^verbatim>\<open>np.isclose\<close>. The sum is taken in exact arithmetic.
\<close>

theorem combined_weights_sum_to_one:
  assumes "find_bounds self temperature Temperature (inputs_dict temperature logg metallicity) = Inr bT"
    and "find_bounds self logg Logg (inputs_dict temperature logg metallicity) = Inr bG"
    and "find_bounds self metallicity Metallicity (inputs_dict temperature logg metallicity) = Inr bZ"
    and "length bT * length bG * length bZ \<noteq> 1"
    and "\<forall>t \<in> set (metadata self Temperature). 0 < t"
  shows "\<exists>wT wG wZ.
           axis_weights temperature logg metallicity bT bG bZ = (Some wT, Some wG, Some wZ) \<and>
           length (lattice wT bT wG bG wZ bZ) = length bT * length bG * length bZ \<and>
           length (lattice wT bT wG bG wZ bZ) \<le> 8 \<and>
           sum_list (map fst (lattice wT bT wG bG wZ bZ)) = 1 \<and>
           isclose (sum_list (map fst (lattice wT bT wG bG wZ bZ))) 1"
proof -
  from axis_weights_defined [OF assms(1,2,3)] obtain wT wG wZ
    where aw: "axis_weights temperature logg metallicity bT bG bZ = (Some wT, Some wG, Some wZ)"
      and len: "length wT = length bT" "length wG = length bG" "length wZ = length bZ"
    by blast
  let ?L = "lattice wT bT wG bG wZ bZ"
  have n: "length ?L = length bT * length bG * length bZ"
    using len by (rule length_lattice)
  have "length bT \<le> 2" "length bG \<le> 2" "length bZ \<le> 2"
    using find_bounds_shape [OF assms(1)] find_bounds_shape [OF assms(2)]
      find_bounds_shape [OF assms(3)] by auto
  then have "length bT * length bG * length bZ \<le> 2 * 2 * 2"
    by (intro mult_le_mono)
  then have le: "length ?L \<le> 8" using n by simp
  have "sum_list wT = 1 \<and> sum_list wG = 1 \<and> sum_list wZ = 1"
    using assms(1,2,3,5) aw by (rule axis_weights_sums)
  then have s: "sum_list (map fst ?L) = 1"
    using len by (simp add: sum_list_lattice)
  show ?thesis using aw n le s isclose_one by auto
qed

theorem combined_weights_sum_to_one_witness:
  "\<exists>wT wG wZ.
     axis_weights 3250 (9 / 2) 0 [3000, 3500] [4, 5] [0] = (Some wT, Some wG, Some wZ) \<and>
     length (lattice wT [3000, 3500] wG [4, 5] wZ [0]) = 4 \<and>
     sum_list (map fst (lattice wT [3000, 3500] wG [4, 5] wZ [0])) = 1"
proof -
  have pos: "\<forall>t \<in> set (metadata example_grid Temperature). 0 < t"
    by (simp add: example_grid_def)
  have n: "length [3000, 3500 :: real] * length [4, 5 :: real] * length [0 :: real] \<noteq> 1"
    by simp
  have four: "length [3000, 3500 :: real] * length [4, 5 :: real] * length [0 :: real] = 4"
    by simp
  show ?thesis
    using combined_weights_sum_to_one
      [OF example_bounds(1) example_bounds(2) example_bounds(4) n pos]
    unfolding four by blast
qed



subsection \<open>Missing grid points\<close>

text \<open>
  Claim C9. For a query inside the grid that is not an exact grid point, if some
  combination of the bounds of the three axes is not a key of \<^verbatim>\<open>models\<close>, then
  \<^verbatim>\<open>get_spectrum\<close> raises \<^verbatim>\<open>KeyError\<close> for such a combination: it returns no
  spectrum.
\<close>

theorem get_spectrum_missing_key:
  assumes "find_bounds self temperature Temperature (inputs_dict temperature logg metallicity) = Inr bT"
    and "find_bounds self logg Logg (inputs_dict temperature logg metallicity) = Inr bG"
    and "find_bounds self metallicity Metallicity (inputs_dict temperature logg metallicity) = Inr bZ"
    and "length bT * length bG * length bZ \<noteq> 1"
    and "\<exists>t \<in> set bT. \<exists>g \<in> set bG. \<exists>z \<in> set bZ. models self (t, g, z) = None"
  shows "\<exists>k \<in> set bT \<times> set bG \<times> set bZ.
           models self k = None \<and> get_spectrum self temperature logg metallicity = Inl (KeyError k)"
proof -
  from axis_weights_defined [OF assms(1,2,3)] obtain wT wG wZ
    where aw: "axis_weights temperature logg metallicity bT bG bZ = (Some wT, Some wG, Some wZ)"
      and len: "length wT = length bT" "length wG = length bG" "length wZ = length bZ"
    by blast
  let ?L = "lattice wT bT wG bG wZ bZ"
  have keys: "snd ` set ?L = set bT \<times> set bG \<times> set bZ"
    using len by (rule keys_lattice)
  then have "\<exists>k \<in> snd ` set ?L. models self k = None"
    using assms(5) by auto
  from lookup_all_missing [OF this] obtain k where k: "k \<in> snd ` set ?L"
    and none: "models self k = None" and la: "lookup_all (models self) ?L = Inl (KeyError k)"
    by blast
  have "interpolate self temperature logg metallicity bT bG bZ = Inl (KeyError k)"
    by (simp add: interpolate_def aw la)
  then have "get_spectrum self temperature logg metallicity = Inl (KeyError k)"
    by (simp add: get_spectrum_interpolated [OF assms(1,2,3,4)])
  then show ?thesis using k none keys by auto
qed

theorem get_spectrum_missing_key_witness:
  "get_spectrum sparse_grid 3250 (9 / 2) 0 = Inl (KeyError (3500, 5, 0))"
  using get_spectrum_missing_key [of sparse_grid 3250 "9 / 2" 0 "[3000, 3500]" "[4, 5]" "[0]"]
  by (auto simp add: sparse_bounds) (auto simp add: sparse_grid_def split: if_splits)

subsection \<open>The smallest sufficient resolution\<close>

text \<open>
  Claim C7. On an ascending, non-empty list of resolutions, a request that is at
  most the largest resolution gets the smallest resolution that is at least the
  request, and no warning. With the resolutions of the class, 450 gives 1000 and
  100000 gives 100000.
\<close>

theorem find_smallest_R_sufficient:
  assumes "sorted resolutions" and "resolutions \<noteq> []" and "R \<le> Max (set resolutions)"
  shows "find_smallest_R resolutions R = Inr ([], Min {a \<in> set resolutions. R \<le> a})"
proof -
  let ?S = "{a \<in> set resolutions. R \<le> a}"
  have "Max (set resolutions) \<in> set resolutions"
    using assms(2) by (intro Max_in) simp_all
  then have "\<exists>x \<in> set resolutions. R \<le> x" using assms(3) by blast
  then have "flatnonzero (map (\<lambda>a. a \<ge> R) resolutions) \<noteq> []"
    by (simp add: flatnonzero_Nil)
  then obtain i rest where fl: "flatnonzero (map (\<lambda>a. a \<ge> R) resolutions) = i # rest"
    by (cases "flatnonzero (map (\<lambda>a. a \<ge> R) resolutions)") auto
  from flatnonzero_Cons [OF fl] have i: "i < length resolutions"
    and ge: "R \<le> resolutions ! i" and first: "\<forall>j<i. \<not> R \<le> resolutions ! j"
    by simp_all
  have "Min ?S = resolutions ! i"
  proof (rule Min_eqI)
    show "finite ?S" by simp
    show "resolutions ! i \<in> ?S" using i ge by simp
    fix y assume "y \<in> ?S"
    then obtain j where j: "j < length resolutions" and y: "y = resolutions ! j" and "R \<le> y"
      by (auto simp add: in_set_conv_nth)
    then have "\<not> j < i" using first by blast
    then have "i \<le> j" by simp
    then show "resolutions ! i \<le> y"
      using assms(1) j y by (simp add: sorted_nth_mono)
  qed
  then show ?thesis using fl by (simp add: find_smallest_R_def)
qed

theorem find_smallest_R_sufficient_witness:
  "find_smallest_R available_resolutions 450 = Inr ([], 1000) \<and>
   find_smallest_R available_resolutions 100000 = Inr ([], 100000)"
proof -
  have m: "Max (set available_resolutions) = 100000"
    by (simp add: available_resolutions_def)
  have a: "Min {a \<in> set available_resolutions. 450 \<le> a} = 1000"
    by (rule Min_eqI) (auto simp add: available_resolutions_def)
  have b: "Min {a \<in> set available_resolutions. 100000 \<le> a} = 100000"
    by (rule Min_eqI) (auto simp add: available_resolutions_def)
  have ne: "available_resolutions \<noteq> []"
    by (simp add: available_resolutions_def)
  show ?thesis
    using find_smallest_R_sufficient [OF sorted_available ne, of 450]
      find_smallest_R_sufficient [OF sorted_available ne, of 100000]
    by (simp add: m a b)
qed

text \<open>
  Claim C8. With the resolutions of the class, a request of 200000, above the
  largest resolution, makes \<^verbatim>\<open>_find_smallest_R\<close> raise \<^verbatim>\<open>IndexError\<close>: it emits
  no warning and returns no resolution.
\<close>

theorem find_smallest_R_above_maximum:
  "find_smallest_R available_resolutions 200000 = Inl IndexError"
  by (rule find_smallest_R_too_large) (simp add: available_resolutions_def)

end
